theory Spec2Isabelle
  imports Main "HOL-Library.Word"
begin

unbundle bit_operations_syntax

section \<open>The task and item model (internal/model/types.go)\<close>

text \<open>
  \<^verbatim>\<open>TaskID\<close>, \<^verbatim>\<open>TaskStatus\<close> and \<^verbatim>\<open>ItemStatus\<close> are Go string types, so a value read
  back from disk can be any string; the named constants are the four task and the four
  item statuses of the source. \<^verbatim>\<open>time.Time\<close> is an abstract instant. Go's \<^verbatim>\<open>int\<close> and
  \<^verbatim>\<open>int64\<close> are 64-bit words read as signed numbers (\<open>sint\<close>, \<open><=s\<close>, \<open><s\<close>);
  \<open>+\<close> wraps as in Go.
\<close>

type_synonym TaskID = string
type_synonym TaskStatus = string
type_synonym ItemStatus = string
type_synonym Time = int

definition TaskStatusPending :: TaskStatus where "TaskStatusPending = ''pending''"
definition TaskStatusRunning :: TaskStatus where "TaskStatusRunning = ''running''"
definition TaskStatusCompleted :: TaskStatus where "TaskStatusCompleted = ''completed''"
definition TaskStatusFailed :: TaskStatus where "TaskStatusFailed = ''failed''"

definition ItemStatusQueued :: ItemStatus where "ItemStatusQueued = ''queued''"
definition ItemStatusDownloading :: ItemStatus where "ItemStatusDownloading = ''downloading''"
definition ItemStatusDone :: ItemStatus where "ItemStatusDone = ''done''"
definition ItemStatusError :: ItemStatus where "ItemStatusError = ''error''"

record Item =
  URL :: string
  FileName :: string
  Status :: ItemStatus
  Attempts :: "64 word"
  ErrorMessage :: string
  SizeExpected :: "64 word"
  SizeDownloaded :: "64 word"
  StartedAt :: "Time option"
  CompletedAt :: "Time option"

text \<open>The task's \<^verbatim>\<open>Status\<close> field is \<open>TStatus\<close> here (the item's keeps the name).\<close>

record Task =
  ID :: TaskID
  CreatedAt :: Time
  TStatus :: TaskStatus
  Items :: "Item list"

text \<open>A \<^verbatim>\<open>*model.Task\<close>: \<open>None\<close> is the nil pointer.\<close>

type_synonym TaskPtr = "Task option"

section \<open>The durable store (internal/storage/store.go)\<close>

subsection \<open>The files of the state directory\<close>

text \<open>
  The model sees the two files through \<^verbatim>\<open>encoding/json\<close>, which is not code of the
  repository. \<^verbatim>\<open>state.wal\<close> is the list of results that successive
  \<^verbatim>\<open>dec.Decode(&rec)\<close> calls give before the end of the file: \<open>Undecodable\<close> when the
  call returns an error (malformed or truncated text), \<open>Decoded rec\<close> otherwise. The
  \<^verbatim>\<open>data\<close> member of a record is the JSON value that the file holds, read against the
  struct that the record's type selects: \<open>Unfit\<close> when its shape does not fit the struct,
  so that \<^verbatim>\<open>json.Unmarshal(raw, &r)\<close> returns an error whatever its numbers are, else the
  members \<^verbatim>\<open>task_id\<close> and \<^verbatim>\<open>task\<close> (\<open>None\<close> when absent or null) with the numbers as
  the text has them. What the replay reads from them is \<open>reread\<close>, below.
\<close>

datatype walData = Unfit | Fields "TaskID option" TaskPtr

record walRecord =
  Type :: string
  Data :: walData

datatype walLine = Undecodable | Decoded walRecord

text \<open>
  \<^verbatim>\<open>state.snapshot.json\<close>: \<open>Unreadable\<close> when \<^verbatim>\<open>os.ReadFile\<close> fails (no such file),
  \<open>Unparsable\<close> when \<^verbatim>\<open>json.Unmarshal\<close> returns an error, \<open>Parsed m\<close> when it gives the
  map \<open>m\<close>, and \<open>ParsedNull\<close> when the file holds the JSON literal \<^verbatim>\<open>null\<close>, which
  \<^verbatim>\<open>json.Unmarshal\<close> accepts and turns into the nil map. \<^verbatim>\<open>SaveSnapshot\<close> never writes
  \<^verbatim>\<open>null\<close>. The snapshot is read into the typed map at once, so its numbers are read
  as they are written.
\<close>

datatype snapshotFile = Unreadable | Unparsable | ParsedNull | Parsed "TaskID \<rightharpoonup> TaskPtr"

text \<open>
  What the disk does with one \<^verbatim>\<open>appendRecord\<close>: \<open>Synced\<close> when write, flush and fsync
  succeed; \<open>SyncFailed\<close> when the line is written and \<^verbatim>\<open>Sync\<close> fails; \<open>WriteFailed part\<close>
  when the write fails after \<open>part\<close> reached the file.
\<close>

datatype outcome = Synced | SyncFailed | WriteFailed "walLine list"

text \<open>
  The store. \<open>tasks\<close> is the in-memory map; the pointers it holds are modelled by the
  values they point to, which is exact as long as one task object is reachable under one
  key only. \<open>walFile\<close> is the content of \<^verbatim>\<open>state.wal\<close>, \<open>walClosed\<close> says that the handle
  \<^verbatim>\<open>s.walFile\<close> was closed, \<open>walBuf\<close> and \<open>walErr\<close> are the pending data and the sticky
  error of the \<^verbatim>\<open>bufio.Writer\<close>. \<open>disk\<close> is the environment: \<open>disk s n\<close> is the outcome
  of the \<open>n\<close>-th append, \<open>appends\<close> counts them.
\<close>

record Store =
  tasks :: "TaskID \<rightharpoonup> TaskPtr"
  snapshotFile :: snapshotFile
  walFile :: "walLine list"
  walClosed :: bool
  walBuf :: "walLine list"
  walErr :: bool
  disk :: "nat \<Rightarrow> outcome"
  appends :: nat

subsection \<open>Numbers of a log record, read back\<close>

text \<open>
  The replay decodes \<^verbatim>\<open>data\<close> into an \<^verbatim>\<open>interface{}\<close>, so every JSON number becomes a
  \<^verbatim>\<open>float64\<close>, and encodes that value again before \<^verbatim>\<open>json.Unmarshal\<close> reads it into the
  struct. \<open>float64_of\<close> is the conversion of a natural number below \<open>2 ^ 64\<close> to the
  nearest \<^verbatim>\<open>float64\<close>, ties to the even mantissa. \<open>shortest\<close> is the integer that
  \<^verbatim>\<open>json.Marshal\<close> writes for such a \<^verbatim>\<open>float64\<close> (\<^verbatim>\<open>strconv.FormatFloat\<close> with format
  \<^verbatim>\<open>'f'\<close> and precision \<open>-1\<close>): of the decimals that read back as the same \<^verbatim>\<open>float64\<close>, the
  one with the fewest digits before its trailing zeros and, among those, the nearest. The
  bounds of the interval of such decimals are kept four-fold, to stay in the integers; they
  belong to the interval when the mantissa is even. \<open>viaFloat64\<close> is the whole trip for
  an \<^verbatim>\<open>int\<close> or \<^verbatim>\<open>int64\<close> field: \<open>None\<close> when the integer written no longer fits 64 bits,
  on which \<^verbatim>\<open>json.Unmarshal\<close> returns an error.
\<close>

fun bitlen :: "nat \<Rightarrow> nat" where
  "bitlen n = (if n = 0 then 0 else Suc (bitlen (n div 2)))"

definition float64_of :: "nat \<Rightarrow> nat" where
  "float64_of a =
     (if a \<le> 2 ^ 53 then a
      else
        let e = bitlen a - 53; q = a div 2 ^ e; r = a mod 2 ^ e; h = 2 ^ (e - 1)
        in (if h < r \<or> (r = h \<and> odd q) then q + 1 else q) * 2 ^ e)"

definition shortest :: "nat \<Rightarrow> nat" where
  "shortest d =
     (if d \<le> 2 ^ 53 then d
      else
        let e = bitlen d - 53; m = d div 2 ^ e;
            hi4 = 4 * d + 2 ^ (e + 1);
            lo4 = 4 * d - (if m = 2 ^ 52 then 2 ^ e else 2 ^ (e + 1));
            inside = (\<lambda>x. if even m then lo4 \<le> 4 * x \<and> 4 * x \<le> hi4
                           else lo4 < 4 * x \<and> 4 * x < hi4);
            pick = (\<lambda>p. let c1 = (d div 10 ^ p) * 10 ^ p; c2 = c1 + 10 ^ p in
                      if inside c1 \<and> inside c2 then [if d - c1 \<le> c2 - d then c1 else c2]
                      else if inside c1 then [c1]
                      else if inside c2 then [c2]
                      else [])
        in case concat (map pick (rev [0..<20])) of [] \<Rightarrow> d | c # cs \<Rightarrow> c)"

definition viaFloat64 :: "64 word \<Rightarrow> 64 word option" where
  "viaFloat64 v =
     (let s = shortest (float64_of (nat \<bar>sint v\<bar>)) in
      if 0 \<le> sint v then (if s < 2 ^ 63 then Some (word_of_nat s) else None)
      else (if s \<le> 2 ^ 63 then Some (- word_of_nat s) else None))"

text \<open>
  The numbers of a task are \<^verbatim>\<open>attempts\<close>, \<^verbatim>\<open>size_expected\<close> and \<^verbatim>\<open>size_downloaded\<close> of
  its items; strings and times are written as JSON strings, which come back as they
  were (a Go string that is not valid UTF-8, which \<^verbatim>\<open>json.Marshal\<close> would alter, is
  outside the model). \<open>rereadTask\<close> is the task that \<^verbatim>\<open>json.Unmarshal(raw, &r)\<close> gives,
  \<open>None\<close> when it returns an error; \<open>reread\<close> is what it makes of the data of a record.
\<close>

definition rereadItem :: "Item \<Rightarrow> Item option" where
  "rereadItem it =
     (case viaFloat64 (Attempts it) of
        None \<Rightarrow> None
      | Some a \<Rightarrow>
     (case viaFloat64 (SizeExpected it) of
        None \<Rightarrow> None
      | Some e \<Rightarrow>
     (case viaFloat64 (SizeDownloaded it) of
        None \<Rightarrow> None
      | Some d \<Rightarrow> Some (it\<lparr>Attempts := a, SizeExpected := e, SizeDownloaded := d\<rparr>))))"

definition rereadTask :: "Task \<Rightarrow> Task option" where
  "rereadTask t =
     (case those (map rereadItem (Items t)) of
        None \<Rightarrow> None
      | Some its \<Rightarrow> Some (t\<lparr>Items := its\<rparr>))"

definition reread :: "walData \<Rightarrow> walData" where
  "reread d =
     (case d of
        Unfit \<Rightarrow> Unfit
      | Fields tid None \<Rightarrow> Fields tid None
      | Fields tid (Some t) \<Rightarrow>
          (case rereadTask t of None \<Rightarrow> Unfit | Some t' \<Rightarrow> Fields tid (Some t')))"

text \<open>
  Numbers that a \<^verbatim>\<open>float64\<close> holds exactly, and tasks that hold no other: they are read
  back as they are written (lemma \<open>rereadTask_exact\<close>).
\<close>

definition exact :: "64 word \<Rightarrow> bool" where
  "exact v = (- (2 ^ 53) \<le> sint v \<and> sint v \<le> 2 ^ 53)"

definition exactItem :: "Item \<Rightarrow> bool" where
  "exactItem it = (exact (Attempts it) \<and> exact (SizeExpected it) \<and> exact (SizeDownloaded it))"

definition exactTask :: "Task \<Rightarrow> bool" where
  "exactTask t = list_all exactItem (Items t)"

subsection \<open>Startup: snapshot, then replay of the log\<close>





subsection \<open>Writing\<close>

text \<open>
  \<^verbatim>\<open>appendRecord\<close>: \<^verbatim>\<open>Write\<close>, \<^verbatim>\<open>Flush\<close>, \<^verbatim>\<open>Sync\<close>. A \<^verbatim>\<open>bufio.Writer\<close> that has failed
  once refuses every later write; a write to a closed file fails and leaves the line in
  the buffer.
\<close>

definition appendRecord :: "walRecord \<Rightarrow> Store \<Rightarrow> string option \<times> Store" where
  "appendRecord rec s =
     (let s1 = s\<lparr>appends := appends s + 1\<rparr> in
      if walErr s then (Some ''write error'', s1)
      else if walClosed s then
        (Some ''file already closed'', s1\<lparr>walBuf := walBuf s @ [Decoded rec], walErr := True\<rparr>)
      else
        (case disk s (appends s) of
           Synced \<Rightarrow> (None, s1\<lparr>walFile := walFile s @ walBuf s @ [Decoded rec], walBuf := []\<rparr>)
         | SyncFailed \<Rightarrow>
             (Some ''sync error'', s1\<lparr>walFile := walFile s @ walBuf s @ [Decoded rec], walBuf := []\<rparr>)
         | WriteFailed part \<Rightarrow>
             (Some ''write error'',
              s1\<lparr>walFile := walFile s @ part, walBuf := walBuf s @ [Decoded rec], walErr := True\<rparr>)))"

text \<open>
  The records \<^verbatim>\<open>walRecord{Type: "upsert_task", Data: recordUpsertTask{Task: t}}\<close> and
  \<^verbatim>\<open>walRecord{Type: "update_task", Data: recordUpdateTask{TaskID: t.ID, Task: t}}\<close>.
\<close>

definition upsertRecord :: "Task \<Rightarrow> walRecord" where
  "upsertRecord t = \<lparr>Type = ''upsert_task'', Data = Fields None (Some t)\<rparr>"

definition updateRecord :: "Task \<Rightarrow> walRecord" where
  "updateRecord t = \<lparr>Type = ''update_task'', Data = Fields (Some (ID t)) (Some t)\<rparr>"

definition UpsertTask :: "Task \<Rightarrow> Store \<Rightarrow> string option \<times> Store" where
  "UpsertTask t s = appendRecord (upsertRecord t) (s\<lparr>tasks := (tasks s)(ID t \<mapsto> Some t)\<rparr>)"

definition UpdateTask :: "Task \<Rightarrow> Store \<Rightarrow> string option \<times> Store" where
  "UpdateTask t s = appendRecord (updateRecord t) (s\<lparr>tasks := (tasks s)(ID t \<mapsto> Some t)\<rparr>)"

text \<open>\<^verbatim>\<open>GetTask\<close> returns the pointer and whether the key is present.\<close>

definition GetTask :: "TaskID \<Rightarrow> Store \<Rightarrow> TaskPtr option" where
  "GetTask k s = tasks s k"



text \<open>
  \<^verbatim>\<open>Close\<close>. \<^verbatim>\<open>Flush\<close> does nothing when the writer has failed before or holds no data;
  else it writes the pending data, which fails on a closed file and may fail on the disk;
  its result is dropped. \<^verbatim>\<open>(*os.File).Close\<close> returns an error when the file is closed
  already; on an open file it closes the handle and returns \<open>closeErr\<close>, the result of the
  system call. Neither field of the store is set to nil.
\<close>

definition Close :: "string option \<Rightarrow> Store \<Rightarrow> string option \<times> Store" where
  "Close closeErr s =
     (let s1 = (if walErr s \<or> walBuf s = [] then s
                else if walClosed s then s\<lparr>walErr := True\<rparr>
                else (case disk s (appends s) of
                        WriteFailed part \<Rightarrow> s\<lparr>walFile := walFile s @ part, walErr := True\<rparr>
                      | _ \<Rightarrow> s\<lparr>walFile := walFile s @ walBuf s, walBuf := []\<rparr>))
      in if walClosed s1 then (Some ''file already closed'', s1)
         else (closeErr, s1\<lparr>walClosed := True\<rparr>))"

subsection \<open>What a restart loads, and what a log record does\<close>



definition nilUpsert :: "walRecord \<Rightarrow> bool" where
  "nilUpsert rec =
     (Type rec = ''upsert_task''
      \<and> (case reread (Data rec) of Fields k None \<Rightarrow> True | _ \<Rightarrow> False))"








section \<open>Names: deterministic file names and task ids\<close>

text \<open>
  \<^verbatim>\<open>path.Base\<close> and \<^verbatim>\<open>path.Ext\<close> of the Go library, on byte strings. \<open>path_Base\<close>: the
  empty path gives \<open>.\<close>; trailing slashes are dropped; what follows the last slash is
  the result, and \<open>/\<close> when nothing is left. \<open>path_Ext\<close>: the suffix of the last
  slash-separated element that starts at its last dot, empty when it has no dot.
\<close>

definition path_Base :: "string \<Rightarrow> string" where
  "path_Base p =
     (if p = [] then ''.''
      else
        let p1 = rev (dropWhile (\<lambda>c. c = CHR ''/'') (rev p));
            p2 = rev (takeWhile (\<lambda>c. c \<noteq> CHR ''/'') (rev p1))
        in if p2 = [] then ''/'' else p2)"

definition path_Ext :: "string \<Rightarrow> string" where
  "path_Ext p =
     (let seg = takeWhile (\<lambda>c. c \<noteq> CHR ''/'') (rev p)
      in if CHR ''.'' \<in> set seg
         then CHR ''.'' # rev (takeWhile (\<lambda>c. c \<noteq> CHR ''.'') seg)
         else [])"

text \<open>\<^verbatim>\<open>hex.EncodeToString\<close>: two lower-case digits per byte, high nibble first.\<close>

definition hexdigit :: "nat \<Rightarrow> char" where
  "hexdigit n = ''0123456789abcdef'' ! (n mod 16)"

definition hex_EncodeToString :: "8 word list \<Rightarrow> string" where
  "hex_EncodeToString bs =
     concat (map (\<lambda>b. [hexdigit (unat (drop_bit 4 b)), hexdigit (unat (take_bit 4 b))]) bs)"

text \<open>
  A \<^verbatim>\<open>[32]byte\<close> digest is a 256-bit word and a \<^verbatim>\<open>[16]byte\<close> array a 128-bit word, the
  first byte on top.
\<close>

definition bytes32 :: "256 word \<Rightarrow> 8 word list" where
  "bytes32 h = map (\<lambda>i. ucast (drop_bit (8 * (31 - i)) h)) [0..<32]"


text \<open>
  \<^verbatim>\<open>DeriveDeterministicFileName\<close>. The two library functions are arguments:
  \<open>url_Parse u\<close> is the \<^verbatim>\<open>Path\<close> of \<^verbatim>\<open>url.Parse(u)\<close>, \<open>None\<close> when it returns an error, and
  \<open>Sum256\<close> is \<^verbatim>\<open>sha256.Sum256\<close>.
\<close>

definition DeriveDeterministicFileName ::
  "(string \<Rightarrow> string option) \<Rightarrow> (string \<Rightarrow> 256 word) \<Rightarrow> string \<Rightarrow> string" where
  "DeriveDeterministicFileName url_Parse Sum256 rawURL =
     (let bare = hex_EncodeToString (take 16 (bytes32 (Sum256 rawURL))) in
      case url_Parse rawURL of
        None \<Rightarrow> bare
      | Some p \<Rightarrow>
          let base = path_Base p in
          if base \<noteq> ''/'' \<and> base \<noteq> ''.'' \<and> base \<noteq> [] \<and> CHR ''?'' \<notin> set base then
            let ext = path_Ext base in
            if 0 < length ext \<and> length ext \<le> 10 then bare @ ext else bare
          else bare)"

text \<open>
  The rule in the words of the specification, for comparison with the function above:
  the extension is appended when the basename of the path has one of 1 to 10 characters,
  the dot included, and holds no question mark; the bare name is used otherwise.
\<close>

definition specFileName ::
  "(string \<Rightarrow> string option) \<Rightarrow> (string \<Rightarrow> 256 word) \<Rightarrow> string \<Rightarrow> string" where
  "specFileName url_Parse Sum256 rawURL =
     (let bare = hex_EncodeToString (take 16 (bytes32 (Sum256 rawURL))) in
      case url_Parse rawURL of
        None \<Rightarrow> bare
      | Some p \<Rightarrow>
          let base = path_Base p; ext = path_Ext base in
          if 1 \<le> length ext \<and> length ext \<le> 10 \<and> CHR ''?'' \<notin> set base
          then bare @ ext else bare)"


section \<open>The download manager\<close>

record Config =
  DataDir :: string
  WorkerCount :: int
  MaxRetryPerItem :: "64 word"
  BaseBackoff :: "64 word"
  SnapshotEveryN :: int

text \<open>A ticket. \<open>itemIdx\<close> only ever holds a slice index or a value compared with one.\<close>

record queueItem =
  taskID :: TaskID
  itemIdx :: int

text \<open>
  The calls that a worker makes to the file system and to the HTTP client, in order:
  the model keeps them as a trace. \<open>Get url range\<close> is the request \<^verbatim>\<open>GET url\<close> with its
  \<^verbatim>\<open>Range\<close> header, if it has one.
\<close>

datatype Effect =
    MkdirAll string
  | Stat string
  | Get string "string option"
  | OpenFile string
  | Seek "64 word"
  | Copy "64 word"
  | CloseFile
  | Rename string string

text \<open>
  The manager. \<open>queue\<close> is the content of the channel \<^verbatim>\<open>m.queue\<close>, oldest first;
  \<open>stopped\<close> says that \<^verbatim>\<open>StopAndWait\<close> closed \<^verbatim>\<open>stopCh\<close> and the queue; \<open>timers\<close> are the
  callbacks of \<^verbatim>\<open>time.AfterFunc\<close> that have not run yet, each with its delay and the
  ticket it will send.
\<close>

record Manager =
  cfg :: Config
  store :: Store
  queue :: "queueItem list"
  stopped :: bool
  timers :: "(64 word \<times> queueItem) list"
  effects :: "Effect list"
  processedN :: int


text \<open>
  What a call of the manager comes to: it returns, it blocks for good on a channel
  operation (the state it blocks in is kept), or it panics.
\<close>

datatype 'a run = Returns 'a | Blocks Manager | Panics string



text \<open>\<^verbatim>\<open>_ = m.store.UpdateTask(t)\<close>: the error is dropped.\<close>

definition persist :: "Task \<Rightarrow> Manager \<Rightarrow> Manager" where
  "persist t m = m\<lparr>store := snd (UpdateTask t (store m))\<rparr>"

text \<open>An assignment through \<^verbatim>\<open>it := &t.Items[i]\<close>.\<close>

definition setItem :: "Task \<Rightarrow> nat \<Rightarrow> (Item \<Rightarrow> Item) \<Rightarrow> Task" where
  "setItem t i f = t\<lparr>Items := (Items t)[i := f (Items t ! i)]\<rparr>"

subsection \<open>CreateTask\<close>



definition tickets :: "Task \<Rightarrow> queueItem list" where
  "tickets t = map (\<lambda>idx. \<lparr>taskID = ID t, itemIdx = int idx\<rparr>) [0..<length (Items t)]"



subsection \<open>Processing a ticket\<close>

record Response =
  StatusCode :: int
  RespStatus :: string
  ContentLength :: "64 word"

text \<open>
  The environment of one \<^verbatim>\<open>processQueueItem\<close>: the results of its calls, in the order
  of the source. \<open>startNow\<close> and \<open>doneNow\<close> are the two \<^verbatim>\<open>time.Now()\<close>; an error is its
  message; \<open>statRes\<close> is the size of the \<^verbatim>\<open>.part\<close> file when \<^verbatim>\<open>os.Stat\<close> succeeds;
  \<open>doRes\<close> is the result of \<^verbatim>\<open>client.Do\<close>; \<open>copyRes\<close> is the pair that \<^verbatim>\<open>io.Copy\<close> returns;
  \<open>snapshotRes\<close> says whether a snapshot taken after the ticket succeeds.
\<close>

record Env =
  startNow :: Time
  mkdirRes :: "string option"
  statRes :: "64 word option"
  newRequestRes :: "string option"
  doRes :: "string + Response"
  openRes :: "string option"
  seekRes :: "string option"
  copyRes :: "64 word \<times> string option"
  closeRes :: "string option"
  renameRes :: "string option"
  doneNow :: Time
  snapshotRes :: bool

text \<open>\<^verbatim>\<open>%d\<close> of a signed 64-bit number.\<close>

fun digits :: "nat \<Rightarrow> string" where
  "digits n =
     (if n < 10 then [''0123456789'' ! n]
      else digits (n div 10) @ [''0123456789'' ! (n mod 10)])"

definition fmt_d :: "64 word \<Rightarrow> string" where
  "fmt_d x = (if sint x < 0 then CHR ''-'' # digits (nat (- sint x)) else digits (nat (sint x)))"

text \<open>\<^verbatim>\<open>filepath.Join\<close> of a directory and a file name that are clean already.\<close>

definition filepath_Join :: "string \<Rightarrow> string \<Rightarrow> string" where
  "filepath_Join dir name = (if dir = [] then name else dir @ ''/'' @ name)"

text \<open>
  \<^verbatim>\<open>failItem\<close> and \<^verbatim>\<open>retryOrFail\<close>. The pointer \<^verbatim>\<open>it\<close> is the index \<open>i\<close> into \<open>Items t\<close>;
  \<^verbatim>\<open>indexOfItem(t, it)\<close>, which finds the index by comparing addresses, is \<open>i\<close> again. The
  callback of \<^verbatim>\<open>time.AfterFunc\<close> is kept in \<open>timers\<close> with its delay.
\<close>

definition failItem :: "Task \<Rightarrow> nat \<Rightarrow> string \<Rightarrow> Manager \<Rightarrow> Manager" where
  "failItem t i cause m =
     persist
       (setItem t i (\<lambda>it. it\<lparr>Attempts := Attempts it + 1, ErrorMessage := cause,
                             Status := ItemStatusError\<rparr>)) m"

definition anyPending :: "Item list \<Rightarrow> bool" where
  "anyPending its =
     list_ex (\<lambda>it. Status it = ItemStatusQueued \<or> Status it = ItemStatusDownloading) its"

definition retryOrFail :: "Task \<Rightarrow> nat \<Rightarrow> string \<Rightarrow> Manager \<Rightarrow> Manager" where
  "retryOrFail t i cause m =
     (let t1 = setItem t i (\<lambda>it. it\<lparr>Attempts := Attempts it + 1, ErrorMessage := cause,
                                    Status := ItemStatusError\<rparr>);
          m1 = persist t1 m
      in if Attempts (Items t1 ! i) <=s MaxRetryPerItem (cfg m1) then
           m1\<lparr>timers := timers m1 @
                 [(BaseBackoff (cfg m1) * Attempts (Items t1 ! i),
                   \<lparr>taskID = ID t1, itemIdx = int i\<rparr>)]\<rparr>
         else if anyPending (Items t1) then m1
         else persist (t1\<lparr>TStatus := TaskStatusFailed\<rparr>) m1)"

definition allDone :: "Item list \<Rightarrow> bool" where
  "allDone its = list_all (\<lambda>it. Status it = ItemStatusDone) its"

text \<open>
  \<^verbatim>\<open>processQueueItem\<close>. The test \<^verbatim>\<open>qi.itemIdx < 0 || qi.itemIdx >= len(t.Items)\<close> reads
  \<^verbatim>\<open>t.Items\<close> only when the index is not negative, so a nil task under the key panics
  there and not before.
\<close>

definition processQueueItem :: "Env \<Rightarrow> queueItem \<Rightarrow> Manager \<Rightarrow> Manager run" where
  "processQueueItem e qi m =
     (case GetTask (taskID qi) (store m) of
        None \<Rightarrow> Returns m
      | Some None \<Rightarrow>
          if itemIdx qi < 0 then Returns m else Panics ''nil pointer dereference''
      | Some (Some t0) \<Rightarrow>
          if itemIdx qi < 0 \<or> int (length (Items t0)) \<le> itemIdx qi then Returns m
          else
            let i = nat (itemIdx qi);
                t1 = setItem (t0\<lparr>TStatus := TaskStatusRunning\<rparr>) i
                       (\<lambda>it. it\<lparr>StartedAt := Some (startNow e), Status := ItemStatusDownloading\<rparr>);
                m1 = persist t1 m;
                m2 = m1\<lparr>effects := effects m1 @ [MkdirAll (DataDir (cfg m1))]\<rparr>
            in case mkdirRes e of
                 Some err \<Rightarrow> Returns (failItem t1 i (''mkdir: '' @ err) m2)
               | None \<Rightarrow>
                   let dstPath = filepath_Join (DataDir (cfg m2)) (FileName (Items t1 ! i));
                       tmpPath = dstPath @ ''.part'';
                       m3 = m2\<lparr>effects := effects m2 @ [Stat tmpPath]\<rparr>;
                       startOffset = (case statRes e of Some sz \<Rightarrow> sz | None \<Rightarrow> 0)
                   in case newRequestRes e of
                        Some err \<Rightarrow> Returns (retryOrFail t1 i err m3)
                      | None \<Rightarrow>
                          let range = (if 0 <s startOffset
                                       then Some (''bytes='' @ fmt_d startOffset @ ''-'')
                                       else None);
                              m4 = m3\<lparr>effects := effects m3 @ [Get (URL (Items t1 ! i)) range]\<rparr>
                          in case doRes e of
                               Inl err \<Rightarrow> Returns (retryOrFail t1 i err m4)
                             | Inr resp \<Rightarrow>
                                 if StatusCode resp \<noteq> 200 \<and> StatusCode resp \<noteq> 206 then
                                   Returns (retryOrFail t1 i (''bad status: '' @ RespStatus resp) m4)
                                 else
                                   let t2 = (if 0 <s ContentLength resp
                                             then setItem t1 i (\<lambda>it. it\<lparr>SizeExpected :=
                                                    startOffset + ContentLength resp\<rparr>)
                                             else t1);
                                       m5 = m4\<lparr>effects := effects m4 @ [OpenFile tmpPath]\<rparr>
                                   in case openRes e of
                                        Some err \<Rightarrow> Returns (retryOrFail t2 i err m5)
                                      | None \<Rightarrow>
                                          let m6 = m5\<lparr>effects := effects m5 @ [Seek startOffset]\<rparr>
                                          in case seekRes e of
                                               Some err \<Rightarrow>
                                                 Returns (retryOrFail t2 i err
                                                   (m6\<lparr>effects := effects m6 @ [CloseFile]\<rparr>))
                                             | None \<Rightarrow>
                                                 let written = fst (copyRes e);
                                                     m7 = m6\<lparr>effects := effects m6 @
                                                            [Copy written, CloseFile]\<rparr>;
                                                     err = (case snd (copyRes e) of
                                                              Some ce \<Rightarrow> Some ce
                                                            | None \<Rightarrow> closeRes e);
                                                     t3 = setItem t2 i (\<lambda>it. it\<lparr>SizeDownloaded :=
                                                            startOffset + written\<rparr>)
                                                 in case err of
                                                      Some er \<Rightarrow> Returns (retryOrFail t3 i er m7)
                                                    | None \<Rightarrow>
                                                        let m8 = m7\<lparr>effects := effects m7 @
                                                                   [Rename tmpPath dstPath]\<rparr>
                                                        in case renameRes e of
                                                             Some er \<Rightarrow>
                                                               Returns (retryOrFail t3 i er m8)
                                                           | None \<Rightarrow>
                                                               let t4 = setItem t3 i
                                                                     (\<lambda>it. it\<lparr>CompletedAt := Some (doneNow e),
                                                                        Status := ItemStatusDone,
                                                                        ErrorMessage := []\<rparr>);
                                                                   m9 = persist t4 m8
                                                               in if allDone (Items t4)
                                                                  then Returns (persist
                                                                    (t4\<lparr>TStatus := TaskStatusCompleted\<rparr>) m9)
                                                                  else Returns m9)"



text \<open>
  \<open>processQueueItem\<close> in three steps, for the proofs: \<open>picked\<close> is the task as the first
  write to the store has it; \<open>attempt\<close> is the part between that write and the call
  that ends the function, and gives the item as that part leaves it, the calls made, and
  how it ends (success, an error handed to \<open>retryOrFail\<close>, an error handed to
  \<open>failItem\<close>); \<open>conclude\<close> is the end. Lemma \<open>processQueueItem_attempt\<close> shows that the
  three make up the function.
\<close>

datatype verdict = Succeeded | Retried string | Failed string


definition conclude :: "Env \<Rightarrow> Task \<Rightarrow> nat \<Rightarrow> verdict \<Rightarrow> Manager \<Rightarrow> Manager" where
  "conclude e t i v m =
     (case v of
        Failed c \<Rightarrow> failItem t i c m
      | Retried c \<Rightarrow> retryOrFail t i c m
      | Succeeded \<Rightarrow>
          let t4 = setItem t i (\<lambda>it. it\<lparr>CompletedAt := Some (doneNow e), Status := ItemStatusDone,
                                          ErrorMessage := []\<rparr>);
              m9 = persist t4 m
          in if allDone (Items t4) then persist (t4\<lparr>TStatus := TaskStatusCompleted\<rparr>) m9 else m9)"

definition picked :: "Env \<Rightarrow> Task \<Rightarrow> nat \<Rightarrow> Task" where
  "picked e t0 i =
     setItem (t0\<lparr>TStatus := TaskStatusRunning\<rparr>) i
       (\<lambda>it. it\<lparr>StartedAt := Some (startNow e), Status := ItemStatusDownloading\<rparr>)"

text \<open>
  The item after \<open>conclude\<close>: \<open>failed\<close> is what \<open>failItem\<close> and \<open>retryOrFail\<close> assign,
  \<open>closing\<close> adds the assignments of the successful end.
\<close>

definition failed :: "string \<Rightarrow> Item \<Rightarrow> Item" where
  "failed cause it =
     it\<lparr>Attempts := Attempts it + 1, ErrorMessage := cause, Status := ItemStatusError\<rparr>"

definition closing :: "Env \<Rightarrow> verdict \<Rightarrow> Item \<Rightarrow> Item" where
  "closing e v it =
     (case v of
        Succeeded \<Rightarrow> it\<lparr>CompletedAt := Some (doneNow e), Status := ItemStatusDone,
                          ErrorMessage := []\<rparr>
      | Retried c \<Rightarrow> failed c it
      | Failed c \<Rightarrow> failed c it)"





subsection \<open>Start and stop\<close>





subsection \<open>What the requeue leaves\<close>

text \<open>
  The effect of \<open>Start\<close> in one piece, for the statements below. \<open>requeue\<close> is what
  the inner loop does to an item and \<open>requeueTask\<close> what the two loops do to a task;
  \<open>pendingTickets\<close> are the tickets that the inner loop sends for a task, and
  \<open>storedTasks\<close> the tasks of the store in the order of the walk. \<open>wfStore\<close> says that
  every key of the map holds a task, not nil, whose id is the key: the maps that
  \<open>UpsertTask\<close>, \<open>UpdateTask\<close> and the replay of their records build are of this
  kind. \<open>healthy\<close> says that the store agrees with its directory, that its disk
  takes every append, and that the numbers of its tasks are read back as they are written.
\<close>

definition requeue :: "Item \<Rightarrow> Item" where
  "requeue it =
     (if Status it \<noteq> ItemStatusDone
      then it\<lparr>Status := ItemStatusQueued, ErrorMessage := [], StartedAt := None, CompletedAt := None\<rparr>
      else it)"

definition requeueTask :: "Task \<Rightarrow> Task" where
  "requeueTask t =
     (let t1 = t\<lparr>Items := map requeue (Items t)\<rparr>
      in if TStatus t \<noteq> TaskStatusCompleted then t1\<lparr>TStatus := TaskStatusPending\<rparr> else t1)"





definition storedTasks :: "TaskID list \<Rightarrow> Store \<Rightarrow> Task list" where
  "storedTasks order s =
     List.map_filter (\<lambda>k. case tasks s k of Some (Some t) \<Rightarrow> Some t | _ \<Rightarrow> None) order"


subsection \<open>A run of the service\<close>









section \<open>Example inputs\<close>

text \<open>
  \<^verbatim>\<open>url.Parse\<close> and \<^verbatim>\<open>sha256.Sum256\<close> on the three URLs of the examples (the path that
  \<^verbatim>\<open>url.Parse\<close> gives, and the SHA-256 digest of the URL).
\<close>

definition ex_Parse :: "string \<Rightarrow> string option" where
  "ex_Parse u =
     (if u = ''http://h/a.zip'' then Some ''/a.zip''
      else if u = ''http://h/x'' then Some ''/x''
      else if u = ''http://h'' then Some []
      else None)"

definition ex_Sum256 :: "string \<Rightarrow> 256 word" where
  "ex_Sum256 u =
     (if u = ''http://h/a.zip''
      then 0x37c79aa049668ddb57d4ac3aaa223cf5f8f2c2e893e3c27fef4a2992d5174b07
      else if u = ''http://h/x''
      then 0x86ca99740210faa002c7e540649a2601947e24afbb48775eddb3870bc9b97601
      else if u = ''http://h''
      then 0x4f8d848825a112f9057c104f83e580e72afa89b824d984994d1bdc7247b0a20c
      else 0)"

text \<open>
  A run for the closed theorems below: a configuration without retries; the store that
  \<open>NewStore\<close> opens on an empty directory whose disk takes every append; the manager
  that \<open>NewManager\<close> makes of them; the task that \<open>CreateTask\<close> builds for the URL
  \<^verbatim>\<open>http://h/a.zip\<close> at time 1 from the random bytes \<open>10\<close>, and the manager after that
  call; the environments of a download that succeeds, of one that the server answers
  with status 500, and of one that resumes a partial file of 7 bytes.
\<close>

definition ex_cfg :: Config where
  "ex_cfg = \<lparr>DataDir = ''data'', WorkerCount = 4, MaxRetryPerItem = 0, BaseBackoff = 500000000,
             SnapshotEveryN = 50\<rparr>"

definition ex_store :: Store where
  "ex_store = \<lparr>tasks = Map.empty, snapshotFile = Unreadable, walFile = [], walClosed = False,
               walBuf = [], walErr = False, disk = (\<lambda>n. Synced), appends = 0\<rparr>"

definition ex_new :: Manager where
  "ex_new = \<lparr>cfg = ex_cfg, store = ex_store, queue = [], stopped = False, timers = [],
             effects = [], processedN = 0\<rparr>"

definition ex_id :: TaskID where
  "ex_id = ''0000000000000000000000000000000a''"

definition ex_item :: Item where
  "ex_item = \<lparr>URL = ''http://h/a.zip'', FileName = ''37c79aa049668ddb57d4ac3aaa223cf5.zip'',
              Status = ItemStatusQueued, Attempts = 0, ErrorMessage = [], SizeExpected = 0,
              SizeDownloaded = 0, StartedAt = None, CompletedAt = None\<rparr>"

definition ex_task :: Task where
  "ex_task = \<lparr>ID = ex_id, CreatedAt = 1, TStatus = TaskStatusPending, Items = [ex_item]\<rparr>"

definition ex_manager :: Manager where
  "ex_manager = ex_new\<lparr>store := snd (UpsertTask ex_task ex_store),
                       queue := [\<lparr>taskID = ex_id, itemIdx = 0\<rparr>]\<rparr>"

definition ex_ok :: Env where
  "ex_ok = \<lparr>startNow = 2, mkdirRes = None, statRes = None, newRequestRes = None,
            doRes = Inr \<lparr>StatusCode = 200, RespStatus = ''200 OK'', ContentLength = 3\<rparr>,
            openRes = None, seekRes = None, copyRes = (3, None), closeRes = None,
            renameRes = None, doneNow = 3, snapshotRes = True\<rparr>"

































section \<open>Properties\<close>

declare digits.simps [simp del]



subsection \<open>Tickets that name no item\<close>

text \<open>
  Claim C10. A ticket whose task id is not a key of the store, or whose index is negative,
  or whose index is at least the number of items of the task stored under its id, is
  dropped: \<open>processQueueItem\<close> returns (it does not panic) and the manager is the one it
  was given, with the same store (map, log and snapshot) and the same trace of file-system
  and HTTP calls.
\<close>

theorem processQueueItem_bad_ticket:
  assumes "GetTask (taskID qi) (store m) = None
           \<or> itemIdx qi < 0
           \<or> (\<exists>t. GetTask (taskID qi) (store m) = Some (Some t)
                 \<and> int (length (Items t)) \<le> itemIdx qi)"
  shows "processQueueItem e qi m = Returns m"
  using assms
  by (auto simp: processQueueItem_def split: option.splits)

theorem processQueueItem_bad_ticket_witness:
  "GetTask (taskID \<lparr>taskID = ex_id, itemIdx = 1\<rparr>) (store ex_manager) = Some (Some ex_task)
   \<and> int (length (Items ex_task)) \<le> itemIdx \<lparr>taskID = ex_id, itemIdx = 1\<rparr>
   \<and> processQueueItem ex_ok \<lparr>taskID = ex_id, itemIdx = 1\<rparr> ex_manager = Returns ex_manager"
proof -
  have g: "GetTask (taskID \<lparr>taskID = ex_id, itemIdx = 1\<rparr>) (store ex_manager) = Some (Some ex_task)"
    by (simp add: GetTask_def ex_manager_def ex_new_def UpsertTask_def appendRecord_def
        ex_store_def ex_task_def)
  have l: "int (length (Items ex_task)) \<le> itemIdx \<lparr>taskID = ex_id, itemIdx = 1\<rparr>"
    by (simp add: ex_task_def)
  from g l processQueueItem_bad_ticket [of "\<lparr>taskID = ex_id, itemIdx = 1\<rparr>" ex_manager ex_ok]
  show ?thesis by blast
qed

subsection \<open>Numbers through float64\<close>

declare bitlen.simps [simp del]













subsection \<open>Replay of the log\<close>









lemma not_nilUpsert_written [simp]:
  "\<not> nilUpsert (upsertRecord t)" "\<not> nilUpsert (updateRecord t)"
  by (simp_all add: nilUpsert_def upsertRecord_def updateRecord_def reread_def split: option.splits)








lemma UpdateTask_tasks: "tasks (snd (UpdateTask t s)) = (tasks s)(ID t \<mapsto> Some t)"
  by (simp add: UpdateTask_def appendRecord_def Let_def split: outcome.splits)











subsection \<open>Closing the store\<close>

text \<open>
  Claim C8, as the source has it. \<open>Close\<close> leaves the log file closed and the map as it
  was; on an open file it returns what closing the handle returns, and it writes the
  pending data of a writer that has not failed when the disk takes them. A second
  \<open>Close\<close> leaves the store as the first one left it, and returns the error of closing a
  file that is closed already.
\<close>

theorem Close_twice:
  "walClosed (snd (Close c1 s))
   \<and> tasks (snd (Close c1 s)) = tasks s
   \<and> (\<not> walClosed s \<longrightarrow> fst (Close c1 s) = c1)
   \<and> (\<not> walClosed s \<and> \<not> walErr s \<and> (\<forall>part. disk s (appends s) \<noteq> WriteFailed part) \<longrightarrow>
        walFile (snd (Close c1 s)) = walFile s @ walBuf s \<and> walBuf (snd (Close c1 s)) = [])
   \<and> Close c2 (snd (Close c1 s)) = (Some ''file already closed'', snd (Close c1 s))"
  by (auto simp: Close_def Let_def split: outcome.splits)

theorem Close_twice_witness:
  "\<not> walClosed ex_store \<and> \<not> walErr ex_store
   \<and> (\<forall>part. disk ex_store (appends ex_store) \<noteq> WriteFailed part)
   \<and> fst (Close None ex_store) = None
   \<and> walFile (snd (Close None ex_store)) = walFile ex_store @ walBuf ex_store
   \<and> Close None (snd (Close None ex_store))
       = (Some ''file already closed'', snd (Close None ex_store))"
proof -
  have h: "\<not> walClosed ex_store" "\<not> walErr ex_store"
    "\<forall>part. disk ex_store (appends ex_store) \<noteq> WriteFailed part"
    by (simp_all add: ex_store_def)
  from Close_twice [of None ex_store None] h show ?thesis
    by simp
qed

text \<open>
  The claim as the specification states it fails on the store of the examples: the first
  \<open>Close\<close> returns nil and the second an error.
\<close>

theorem Close_not_idempotent:
  "fst (Close None ex_store) = None
   \<and> fst (Close None (snd (Close None ex_store))) = Some ''file already closed''"
  by (simp add: Close_def ex_store_def)

subsection \<open>File names\<close>

lemma path_Base_ne: "path_Base p \<noteq> []"
  by (simp add: path_Base_def Let_def)

lemma path_Ext_slash: "path_Ext ''/'' = []"
  by (simp add: path_Ext_def)

lemma length_hex: "length (hex_EncodeToString bs) = 2 * length bs"
  by (induction bs) (simp_all add: hex_EncodeToString_def)

lemma hexdigit_in: "hexdigit n \<in> set ''0123456789abcdef''"
proof -
  have "n mod 16 < length ''0123456789abcdef''" by simp
  then have "''0123456789abcdef'' ! (n mod 16) \<in> set ''0123456789abcdef''"
    by (rule nth_mem)
  then show ?thesis by (simp only: hexdigit_def)
qed

lemma set_hex: "set (hex_EncodeToString bs) \<subseteq> set ''0123456789abcdef''"
proof
  fix c assume "c \<in> set (hex_EncodeToString bs)"
  then obtain n where "c = hexdigit n"
    by (auto simp: hex_EncodeToString_def)
  then show "c \<in> set ''0123456789abcdef''"
    by (simp only: hexdigit_in)
qed

lemma length_bytes32: "length (bytes32 h) = 32"
  by (simp add: bytes32_def)

text \<open>
  Claim C5, as the source has it. The name is a function of the URL's parsed path and
  digest alone. It starts with the 32 lower-case hexadecimal digits of the first 16 bytes
  of the digest. The extension of the path's basename is appended when the basename is
  not \<open>.\<close> (the basename of an empty path), the extension has 1 to 10 characters
  with its dot, and the basename holds no question mark; in every other case, also when
  the URL does not parse, the name is the 32 digits alone. A URL whose basename has no
  extension gets a name of exactly 32 characters.
\<close>

theorem DeriveDeterministicFileName_rule:
  "DeriveDeterministicFileName url_Parse Sum256 u =
     (let bare = hex_EncodeToString (take 16 (bytes32 (Sum256 u))) in
      case url_Parse u of
        None \<Rightarrow> bare
      | Some p \<Rightarrow>
          if path_Base p \<noteq> ''.'' \<and> 1 \<le> length (path_Ext (path_Base p))
             \<and> length (path_Ext (path_Base p)) \<le> 10 \<and> CHR ''?'' \<notin> set (path_Base p)
          then bare @ path_Ext (path_Base p) else bare)
   \<and> length (hex_EncodeToString (take 16 (bytes32 (Sum256 u)))) = 32
   \<and> set (hex_EncodeToString (take 16 (bytes32 (Sum256 u)))) \<subseteq> set ''0123456789abcdef''
   \<and> ((\<forall>p. url_Parse u = Some p \<longrightarrow> path_Ext (path_Base p) = []) \<longrightarrow>
        length (DeriveDeterministicFileName url_Parse Sum256 u) = 32)
   \<and> (url_Parse u = url_Parse' u' \<and> Sum256 u = Sum256' u' \<longrightarrow>
        DeriveDeterministicFileName url_Parse Sum256 u
        = DeriveDeterministicFileName url_Parse' Sum256' u')"
proof -
  have l: "length (hex_EncodeToString (take 16 (bytes32 (Sum256 u)))) = 32"
    by (simp add: length_hex length_bytes32)
  have e: "DeriveDeterministicFileName url_Parse Sum256 u =
     (let bare = hex_EncodeToString (take 16 (bytes32 (Sum256 u))) in
      case url_Parse u of
        None \<Rightarrow> bare
      | Some p \<Rightarrow>
          if path_Base p \<noteq> ''.'' \<and> 1 \<le> length (path_Ext (path_Base p))
             \<and> length (path_Ext (path_Base p)) \<le> 10 \<and> CHR ''?'' \<notin> set (path_Base p)
          then bare @ path_Ext (path_Base p) else bare)"
    using path_Ext_slash
    by (auto simp: DeriveDeterministicFileName_def Let_def path_Base_ne Suc_le_eq
        split: option.splits)
  have n: "(\<forall>p. url_Parse u = Some p \<longrightarrow> path_Ext (path_Base p) = []) \<longrightarrow>
        length (DeriveDeterministicFileName url_Parse Sum256 u) = 32"
    using l by (auto simp: DeriveDeterministicFileName_def Let_def split: option.splits)
  have d: "url_Parse u = url_Parse' u' \<and> Sum256 u = Sum256' u' \<longrightarrow>
        DeriveDeterministicFileName url_Parse Sum256 u
        = DeriveDeterministicFileName url_Parse' Sum256' u'"
    by (simp add: DeriveDeterministicFileName_def)
  from e l set_hex n d show ?thesis by blast
qed

theorem DeriveDeterministicFileName_rule_witness:
  "ex_Parse ''http://h/a.zip'' = Some ''/a.zip''
   \<and> DeriveDeterministicFileName ex_Parse ex_Sum256 ''http://h/a.zip''
       = hex_EncodeToString (take 16 (bytes32 (ex_Sum256 ''http://h/a.zip''))) @ ''.zip''
   \<and> ex_Parse ''http://h/x'' = Some ''/x'' \<and> path_Ext (path_Base ''/x'') = []
   \<and> length (DeriveDeterministicFileName ex_Parse ex_Sum256 ''http://h/x'') = 32"
proof -
  have p: "ex_Parse ''http://h/a.zip'' = Some ''/a.zip''" "ex_Parse ''http://h/x'' = Some ''/x''"
    by (simp_all add: ex_Parse_def)
  have b: "path_Base ''/a.zip'' = ''a.zip''" "path_Ext ''a.zip'' = ''.zip''"
    "path_Ext (path_Base ''/x'') = []"
    by (simp_all add: path_Base_def path_Ext_def)
  from p(2) b(3)
  have h: "\<forall>p. ex_Parse ''http://h/x'' = Some p \<longrightarrow> path_Ext (path_Base p) = []"
    by simp
  from DeriveDeterministicFileName_rule [of ex_Parse ex_Sum256 "''http://h/a.zip''"]
  have 1: "DeriveDeterministicFileName ex_Parse ex_Sum256 ''http://h/a.zip''
       = hex_EncodeToString (take 16 (bytes32 (ex_Sum256 ''http://h/a.zip''))) @ ''.zip''"
    by (simp add: p b Let_def)
  from DeriveDeterministicFileName_rule [of ex_Parse ex_Sum256 "''http://h/x''"] h
  have 2: "length (DeriveDeterministicFileName ex_Parse ex_Sum256 ''http://h/x'') = 32"
    by blast
  from p b 1 2 show ?thesis by simp
qed

text \<open>
  The rule as the specification words it fails where the path is empty, as for the URL
  \<^verbatim>\<open>http://h\<close>: the basename is \<open>.\<close>, whose extension is the dot itself, one character
  long; the rule would append it, and the function returns the 32 digits alone.
\<close>

theorem DeriveDeterministicFileName_dot:
  "ex_Parse ''http://h'' = Some [] \<and> path_Base [] = ''.'' \<and> path_Ext ''.'' = ''.''
   \<and> DeriveDeterministicFileName ex_Parse ex_Sum256 ''http://h''
       = hex_EncodeToString (take 16 (bytes32 (ex_Sum256 ''http://h'')))
   \<and> specFileName ex_Parse ex_Sum256 ''http://h''
       = hex_EncodeToString (take 16 (bytes32 (ex_Sum256 ''http://h''))) @ ''.''
   \<and> DeriveDeterministicFileName ex_Parse ex_Sum256 ''http://h''
       \<noteq> specFileName ex_Parse ex_Sum256 ''http://h''"
  by (simp add: ex_Parse_def path_Base_def path_Ext_def DeriveDeterministicFileName_def
      specFileName_def)


subsection \<open>Creating a task\<close>









lemma tickets_eq:
  "tickets t = map (\<lambda>i. \<lparr>taskID = ID t, itemIdx = int i\<rparr>) [0..<length (Items t)]"
  by (simp add: tickets_def)









subsection \<open>The steps of processQueueItem\<close>

lemma persist_simps [simp]:
  "tasks (store (persist t m)) = (tasks (store m))(ID t \<mapsto> Some t)"
  "queue (persist t m) = queue m"
  "timers (persist t m) = timers m"
  "effects (persist t m) = effects m"
  "cfg (persist t m) = cfg m"
  "stopped (persist t m) = stopped m"
  "processedN (persist t m) = processedN m"
  by (simp_all add: persist_def UpdateTask_tasks)

lemma setItem_simps [simp]:
  "ID (setItem t i f) = ID t"
  "TStatus (setItem t i f) = TStatus t"
  "CreatedAt (setItem t i f) = CreatedAt t"
  "Items (setItem t i f) = (Items t)[i := f (Items t ! i)]"
  by (simp_all add: setItem_def)

lemma setItem_setItem [simp]: "setItem (setItem t i f) i g = setItem t i (\<lambda>it. g (f it))"
  by (cases "i < length (Items t)") (simp_all add: setItem_def list_update_beyond)








lemma setItem_TStatus_noop [simp]: "(setItem t i f)\<lparr>TStatus := TStatus t\<rparr> = setItem t i f"
  by (simp add: setItem_def)



lemma closing_sizes [simp]:
  "SizeExpected (closing e v it) = SizeExpected it"
  "SizeDownloaded (closing e v it) = SizeDownloaded it"
  "URL (closing e v it) = URL it"
  "FileName (closing e v it) = FileName it"
  by (simp_all add: closing_def failed_def split: verdict.splits)

lemma retryOrFail_frame [simp]:
  "queue (retryOrFail t i c m) = queue m"
  "effects (retryOrFail t i c m) = effects m"
  "cfg (retryOrFail t i c m) = cfg m"
  "stopped (retryOrFail t i c m) = stopped m"
  "processedN (retryOrFail t i c m) = processedN m"
  by (simp_all add: retryOrFail_def Let_def)

lemma failItem_frame [simp]:
  "queue (failItem t i c m) = queue m"
  "effects (failItem t i c m) = effects m"
  "cfg (failItem t i c m) = cfg m"
  "stopped (failItem t i c m) = stopped m"
  "timers (failItem t i c m) = timers m"
  "processedN (failItem t i c m) = processedN m"
  by (simp_all add: failItem_def)

lemma conclude_frame [simp]:
  "queue (conclude e t i v m) = queue m"
  "effects (conclude e t i v m) = effects m"
  "cfg (conclude e t i v m) = cfg m"
  "stopped (conclude e t i v m) = stopped m"
  "processedN (conclude e t i v m) = processedN m"
  by (simp_all add: conclude_def Let_def split: verdict.splits)



lemma picked_simps [simp]:
  "ID (picked e t0 i) = ID t0"
  "length (Items (picked e t0 i)) = length (Items t0)"
  "i < length (Items t0) \<Longrightarrow> Items (picked e t0 i) ! i
     = (Items t0 ! i)\<lparr>StartedAt := Some (startNow e), Status := ItemStatusDownloading\<rparr>"
  "TStatus (picked e t0 i) = TaskStatusRunning"
  by (simp_all add: picked_def)

subsection \<open>The download protocol\<close>






subsection \<open>The requeue of Start\<close>




lemma exactItem_requeue: "exactItem (requeue it) = exactItem it"
  by (simp add: requeue_def exactItem_def)


lemma exactTask_requeueTask: "exactTask t \<Longrightarrow> exactTask (requeueTask t)"
  by (simp add: exactTask_def requeueTask_def Let_def list_all_iff exactItem_requeue)

lemma exactTask_Items [simp]:
  "exactTask (t\<lparr>TStatus := x\<rparr>) = exactTask t"
  by (simp add: exactTask_def)




lemma foldl_requeue_keeps [simp]:
  "ID (foldl (\<lambda>t i. setItem t i requeue) t idxs) = ID t"
  "TStatus (foldl (\<lambda>t i. setItem t i requeue) t idxs) = TStatus t"
  "CreatedAt (foldl (\<lambda>t i. setItem t i requeue) t idxs) = CreatedAt t"
  "length (Items (foldl (\<lambda>t i. setItem t i requeue) t idxs)) = length (Items t)"
  by (induction idxs arbitrary: t) simp_all








lemma storedTasks_Nil [simp]: "storedTasks [] s = []"
  by (simp add: storedTasks_def List.map_filter_simps)













subsection \<open>What a run keeps\<close>




























subsection \<open>A failure, a restart, and a crash\<close>


lemma ex_manager_eq:
  "ex_manager = ex_new\<lparr>store := ex_store\<lparr>tasks := [ex_id \<mapsto> Some ex_task],
      walFile := [Decoded (upsertRecord ex_task)], appends := 1\<rparr>,
      queue := [\<lparr>taskID = ex_id, itemIdx = 0\<rparr>]\<rparr>"
  by (simp add: ex_manager_def ex_new_def UpsertTask_def appendRecord_def ex_store_def Let_def ex_task_def)



lemma ex_manager_ticket:
  "tasks (store (ex_manager\<lparr>queue := []\<rparr>)) (taskID \<lparr>taskID = ex_id, itemIdx = 0\<rparr>) = Some (Some ex_task)"
  "0 \<le> itemIdx \<lparr>taskID = ex_id, itemIdx = 0\<rparr>"
  "itemIdx \<lparr>taskID = ex_id, itemIdx = 0\<rparr> < int (length (Items ex_task))"
  by (simp_all add: ex_manager_eq ex_task_def)















lemma ex_manager_ticket_ok:
  "tasks (store (ex_manager\<lparr>queue := []\<rparr>)) (taskID \<lparr>taskID = ex_id, itemIdx = 0\<rparr>) = Some (Some ex_task)"
  "0 \<le> itemIdx \<lparr>taskID = ex_id, itemIdx = 0\<rparr>"
  "itemIdx \<lparr>taskID = ex_id, itemIdx = 0\<rparr> < int (length (Items ex_task))"
  by (rule ex_manager_ticket)+


























end
